theory Spec2Isabelle
  imports Complex_Main
begin

section \<open>JavaScript text and numbers used by the form\<close>

text \<open>
  Form fields hold text. The model takes a field's text as a \<open>string\<close> of ASCII
  characters. \<^verbatim>\<open>String.prototype.trim\<close> strips white space and line terminators
  from both ends; in ASCII these are TAB, LF, VT, FF, CR and SPACE (the Unicode spaces
  that JavaScript strips as well lie outside the characters modelled here).
\<close>

definition isWhiteSpace :: "char \<Rightarrow> bool" where
  "isWhiteSpace c \<longleftrightarrow>
     c = CHR 0x09 \<or> c = CHR 0x0A \<or> c = CHR 0x0B \<or> c = CHR 0x0C \<or> c = CHR 0x0D \<or> c = CHR '' ''"

definition trimStart :: "string \<Rightarrow> string" where
  "trimStart s = dropWhile isWhiteSpace s"

definition trim :: "string \<Rightarrow> string" where
  "trim s = rev (dropWhile isWhiteSpace (rev (dropWhile isWhiteSpace s)))"

text \<open>\<^verbatim>\<open>x || null\<close> on a string: the empty string is falsy and becomes null.\<close>

definition orNull :: "string \<Rightarrow> string option" where
  "orNull s = (if s = [] then None else Some s)"

text \<open>
  A JavaScript number as far as this program can tell numbers apart: NaN, the two
  infinities, or a finite value. A finite value is kept as the exact rational that the
  decimal literal denotes; the rounding of that value to the nearest double is not
  modelled (nor the sign of a zero), only the overflow of a literal to an infinity.
\<close>

datatype number = NaN | Infinity bool | Finite rat

definition isNaN :: "number \<Rightarrow> bool" where
  "isNaN x \<longleftrightarrow> x = NaN"

definition isDigit :: "char \<Rightarrow> bool" where
  "isDigit c \<longleftrightarrow> c \<in> set ''0123456789''"

definition digitVal :: "char \<Rightarrow> nat" where
  "digitVal c = of_char c - 48"

definition digitsVal :: "string \<Rightarrow> nat" where
  "digitsVal ds = foldl (\<lambda>a c. 10 * a + digitVal c) 0 ds"

text \<open>An optional sign in front of a literal or of an exponent: the flag says negative.\<close>

fun signOf :: "string \<Rightarrow> bool \<times> string" where
  "signOf (c # cs) =
     (if c = CHR ''-'' then (True, cs) else if c = CHR ''+'' then (False, cs) else (False, c # cs))"
| "signOf [] = (False, [])"

text \<open>
  The exponent part of the longest literal prefix: \<open>e\<close> or \<open>E\<close>, an optional sign
  and at least one digit; anything else leaves the exponent at zero.
\<close>

definition exponentPart :: "string \<Rightarrow> int" where
  "exponentPart r =
     (case r of
        [] \<Rightarrow> 0
      | c # cs \<Rightarrow>
          if c = CHR ''e'' \<or> c = CHR ''E'' then
            (let (neg, ds) = signOf cs; es = takeWhile isDigit ds
             in if es = [] then 0
                else if neg then - int (digitsVal es) else int (digitsVal es))
          else 0)"

definition scale10 :: "nat \<Rightarrow> int \<Rightarrow> rat" where
  "scale10 m e = (if 0 \<le> e then of_nat m * 10 ^ nat e else of_nat m / 10 ^ nat (- e))"

text \<open>A value at or beyond this bound rounds to an infinity in double precision.\<close>

definition overflowBound :: rat where
  "overflowBound = 2 ^ 1024 - 2 ^ 970"

text \<open>
  \<^verbatim>\<open>parseFloat\<close>: skip leading white space, take the longest prefix that is a decimal
  literal (optional sign, then \<open>Infinity\<close>, or digits with an optional fraction and an
  optional exponent, with a digit before or after the point) and return its value; NaN
  when there is no such prefix. Whatever follows the prefix is ignored.
\<close>

definition parseFloat :: "string \<Rightarrow> number" where
  "parseFloat s =
     (let (neg, r) = signOf (trimStart s) in
      if take 8 r = ''Infinity'' then Infinity neg
      else
        let ds = takeWhile isDigit r;
            r1 = dropWhile isDigit r;
            hasPoint = (r1 \<noteq> [] \<and> hd r1 = CHR ''.'');
            fs = (if hasPoint then takeWhile isDigit (tl r1) else []);
            r2 = (if hasPoint then dropWhile isDigit (tl r1) else r1)
        in if ds = [] \<and> fs = [] then NaN
           else
             let v = scale10 (digitsVal (ds @ fs)) (exponentPart r2 - int (length fs))
             in if overflowBound \<le> v then Infinity neg
                else Finite (if neg then - v else v))"

text \<open>The decimal digits of a non-negative integer, as a template literal prints it.\<close>

definition digitChar :: "nat \<Rightarrow> char" where
  "digitChar d = ''0123456789'' ! d"

fun digitsOf :: "nat \<Rightarrow> string" where
  "digitsOf n =
     (if n < 10 then [digitChar n] else digitsOf (n div 10) @ [digitChar (n mod 10)])"

declare digitsOf.simps [simp del]

section \<open>The form component\<close>

text \<open>
  The component's state: the six text fields, the selected image, the chosen image
  source, the submitting flag and the error text shown above the form.
\<close>

record form_data =
  productUrl :: string
  budget :: string
  material :: string
  comments :: string
  name :: string
  phone :: string

text \<open>A selected file: its name and its bytes.\<close>

record image_file =
  file_name :: string
  file_bytes :: "nat list"

datatype upload_type = File | Url

record component_state =
  formData :: form_data
  selectedImage :: "image_file option"
  uploadType :: upload_type
  isSubmitting :: bool
  submitError :: string

definition emptyForm :: form_data where
  "emptyForm = \<lparr>productUrl = [], budget = [], material = [], comments = [], name = [], phone = []\<rparr>"

definition initialState :: component_state where
  "initialState =
     \<lparr>formData = emptyForm, selectedImage = None, uploadType = File,
      isSubmitting = False, submitError = []\<rparr>"

text \<open>The row handed to the insert call; a null column is \<open>None\<close>.\<close>

record row =
  product_url :: "string option"
  row_budget :: number
  row_material :: "string option"
  extra_comments :: "string option"
  row_name :: "string option"
  phone_number :: "string option"

text \<open>What the two network calls answer: data, an error value, or a rejected promise.\<close>

datatype upload_result =
    UploadData string
  | UploadError string
  | UploadRejected string

datatype insert_result =
    InsertData "row list"
  | InsertError string string
  | InsertRejected string

text \<open>Values that reach the console or the catch block.\<close>

datatype js_value =
    ErrorObj string
  | StorageError string
  | PostgrestError string string
  | Reason string
  | Rows "row list"

text \<open>Everything the handler does to the outside, in the order it does it.\<close>

datatype effect =
    PreventDefault
  | ConsoleError string js_value
  | ConsoleLog string js_value
  | StorageUpload string string image_file
  | GetPublicUrl string string
  | Insert string "row list"
  | Alert string

text \<open>
  An attempt suspended at an await. The continuation after the upload still reads the
  form data and the parsed budget of the render in which the handler started; the
  continuation after the insert reads nothing.
\<close>

datatype pending = AwaitUpload form_data number | AwaitInsert

record session =
  st :: component_state
  inflight :: "pending list"
  trace :: "effect list"

definition emit :: "effect \<Rightarrow> session \<Rightarrow> session" where
  "emit e s = s\<lparr>trace := trace s @ [e]\<rparr>"

definition setIsSubmitting :: "bool \<Rightarrow> session \<Rightarrow> session" where
  "setIsSubmitting b s = s\<lparr>st := (st s)\<lparr>isSubmitting := b\<rparr>\<rparr>"

definition setSubmitError :: "string \<Rightarrow> session \<Rightarrow> session" where
  "setSubmitError m s = s\<lparr>st := (st s)\<lparr>submitError := m\<rparr>\<rparr>"

definition setFormData :: "form_data \<Rightarrow> session \<Rightarrow> session" where
  "setFormData fd s = s\<lparr>st := (st s)\<lparr>formData := fd\<rparr>\<rparr>"

definition setSelectedImage :: "image_file option \<Rightarrow> session \<Rightarrow> session" where
  "setSelectedImage f s = s\<lparr>st := (st s)\<lparr>selectedImage := f\<rparr>\<rparr>"

definition setUploadType :: "upload_type \<Rightarrow> session \<Rightarrow> session" where
  "setUploadType t s = s\<lparr>st := (st s)\<lparr>uploadType := t\<rparr>\<rparr>"

subsection \<open>handleSubmit, lines 34 to 70: the checks before the try block\<close>

text \<open>The message of the first check that fails, in the order of the source.\<close>

definition validation :: "component_state \<Rightarrow> string option" where
  "validation c =
     (if uploadType c = File \<and> selectedImage c = None then
        Some ''Please upload a product image''
      else if uploadType c = Url \<and> trim (productUrl (formData c)) = [] then
        Some ''Please enter a product URL''
      else if trim (budget (formData c)) = [] then
        Some ''Please enter your budget''
      else if trim (name (formData c)) = [] then
        Some ''Please enter your name''
      else if trim (phone (formData c)) = [] then
        Some ''Please enter your phone number''
      else if isNaN (parseFloat (budget (formData c))) then
        Some ''Please enter a valid budget amount''
      else None)"

subsection \<open>handleSubmit, lines 98 to 110: the insert call\<close>

definition buildRow :: "string option \<Rightarrow> number \<Rightarrow> form_data \<Rightarrow> row" where
  "buildRow imageUrl budgetNum fd =
     \<lparr>product_url = imageUrl,
      row_budget = budgetNum,
      row_material = orNull (trim (material fd)),
      extra_comments = orNull (trim (comments fd)),
      row_name = orNull (trim (name fd)),
      phone_number = orNull (trim (phone fd))\<rparr>"

text \<open>The call is issued and the handler suspends until the answer arrives.\<close>

definition callInsert :: "string option \<Rightarrow> number \<Rightarrow> form_data \<Rightarrow> session \<Rightarrow> session" where
  "callInsert imageUrl budgetNum fd s =
     (emit (Insert ''form_submissions'' [buildRow imageUrl budgetNum fd]) s)
       \<lparr>inflight := inflight s @ [AwaitInsert]\<rparr>"

subsection \<open>handleSubmit, lines 112 to 125: the store's error code as an Error message\<close>

definition insertErrorMessage :: "string \<Rightarrow> string \<Rightarrow> string" where
  "insertErrorMessage code message =
     (if code = ''23505'' then ''This submission already exists''
      else if code = ''42P01'' then ''Table not found. Please check your database setup''
      else if code = ''42703'' then ''Invalid column name. Please check the form fields''
      else if code = ''23502'' then ''Required field missing''
      else ''Database error: '' @ message)"

subsection \<open>handleSubmit, lines 141 to 146: catch and finally\<close>

text \<open>Whatever was thrown is logged; the form shows one fixed text; the flag is cleared.\<close>

definition catchFinally :: "js_value \<Rightarrow> session \<Rightarrow> session" where
  "catchFinally thrown s =
     setIsSubmitting False
       (setSubmitError ''There was an error submitting your request. Please try again.''
         (emit (ConsoleError ''Error submitting form:'' thrown) s))"

subsection \<open>handleSubmit, lines 28 to 94: from the call to the first await or return\<close>

definition handleSubmit :: "nat \<Rightarrow> session \<Rightarrow> session" where
  "handleSubmit now s =
     (let c = st s;
          s1 = setSubmitError [] (setIsSubmitting True (emit PreventDefault s))
      in case validation c of
           Some message \<Rightarrow> setIsSubmitting False (setSubmitError message s1)
         | None \<Rightarrow>
             (let budgetNum = parseFloat (budget (formData c))
              in case (uploadType c, selectedImage c) of
                   (File, Some img) \<Rightarrow>
                     (emit (StorageUpload ''mvp_bucket'' (digitsOf now @ ''-'' @ file_name img) img) s1)
                       \<lparr>inflight := inflight s1 @ [AwaitUpload (formData c) budgetNum]\<rparr>
                 | (File, None) \<Rightarrow> callInsert None budgetNum (formData c) s1
                 | (Url, _) \<Rightarrow>
                     callInsert (Some (trim (productUrl (formData c)))) budgetNum (formData c) s1))"

subsection \<open>handleSubmit, lines 81 to 94: after the upload has settled\<close>

definition dropAt :: "nat \<Rightarrow> 'a list \<Rightarrow> 'a list" where
  "dropAt i xs = take i xs @ drop (Suc i) xs"

text \<open>
  \<open>getPublicUrl\<close> is the storage client's address of a stored path; it has no failure
  path. The attempt is the one at position \<open>i\<close> among those in flight.
\<close>

definition uploadSettled :: "(string \<Rightarrow> string) \<Rightarrow> nat \<Rightarrow> upload_result \<Rightarrow> session \<Rightarrow> session" where
  "uploadSettled getPublicUrl i r s =
     (if i < length (inflight s) then
        (case inflight s ! i of
           AwaitUpload fd budgetNum \<Rightarrow>
             (let s0 = s\<lparr>inflight := dropAt i (inflight s)\<rparr> in
              case r of
                UploadRejected reason \<Rightarrow> catchFinally (Reason reason) s0
              | UploadError e \<Rightarrow>
                  catchFinally (ErrorObj ''Failed to upload image'')
                    (emit (ConsoleError ''Image upload error:'' (StorageError e)) s0)
              | UploadData path \<Rightarrow>
                  callInsert (Some (getPublicUrl path)) budgetNum fd
                    (emit (GetPublicUrl ''mvp_bucket'' path) s0))
         | AwaitInsert \<Rightarrow> s)
      else s)"

subsection \<open>handleSubmit, lines 112 to 146: after the insert has settled\<close>

definition insertSettled :: "nat \<Rightarrow> insert_result \<Rightarrow> session \<Rightarrow> session" where
  "insertSettled i r s =
     (if i < length (inflight s) then
        (case inflight s ! i of
           AwaitInsert \<Rightarrow>
             (let s0 = s\<lparr>inflight := dropAt i (inflight s)\<rparr> in
              case r of
                InsertRejected reason \<Rightarrow> catchFinally (Reason reason) s0
              | InsertError code message \<Rightarrow>
                  catchFinally (ErrorObj (insertErrorMessage code message))
                    (emit (ConsoleError ''Supabase insertion error:'' (PostgrestError code message)) s0)
              | InsertData rows \<Rightarrow>
                  setIsSubmitting False
                    (emit (Alert ''Thank you! We will text you with our hand-selected dupes soon!'')
                      (setSelectedImage None
                        (setFormData emptyForm
                          (emit (ConsoleLog ''Successfully inserted data:'' (Rows rows)) s0)))))
         | AwaitUpload fd budgetNum \<Rightarrow> s)
      else s)"

subsection \<open>The other handlers, lines 22 to 26, 149 to 154, 196 and 207\<close>

datatype field = ProductUrl | Budget | Material | Comments | Name | Phone



subsection \<open>The submit control, lines 168 to 179\<close>


subsection \<open>A session as a sequence of events\<close>




definition freshSession :: "component_state \<Rightarrow> session" where
  "freshSession c = \<lparr>st = c, inflight = [], trace = []\<rparr>"

text \<open>
  One attempt from start to end: the handler runs on the component state \<open>c\<close>, the
  upload (if one was started) answers \<open>up\<close>, the insert (if one was started) answers
  \<open>ins\<close>.
\<close>

definition attempt ::
  "(string \<Rightarrow> string) \<Rightarrow> nat \<Rightarrow> upload_result \<Rightarrow> insert_result \<Rightarrow> component_state \<Rightarrow> session" where
  "attempt getPublicUrl now up ins c =
     insertSettled 0 ins (uploadSettled getPublicUrl 0 up (handleSubmit now (freshSession c)))"

subsection \<open>Reading a trace\<close>

fun insertedRows :: "effect list \<Rightarrow> row list" where
  "insertedRows [] = []"
| "insertedRows (Insert t rows # es) = rows @ insertedRows es"
| "insertedRows (e # es) = insertedRows es"

fun isObjectStoreCall :: "effect \<Rightarrow> bool" where
  "isObjectStoreCall (StorageUpload b n f) = True"
| "isObjectStoreCall (GetPublicUrl b p) = True"
| "isObjectStoreCall e = False"

fun isInsertCall :: "effect \<Rightarrow> bool" where
  "isInsertCall (Insert t rows) = True"
| "isInsertCall e = False"

definition networkCalls :: "effect list \<Rightarrow> effect list" where
  "networkCalls es = filter (\<lambda>e. isObjectStoreCall e \<or> isInsertCall e) es"

subsection \<open>Sample drafts\<close>

definition sampleImage :: image_file where
  "sampleImage = \<lparr>file_name = ''dress.png'', file_bytes = [137, 80, 78, 71]\<rparr>"

definition sampleForm :: form_data where
  "sampleForm =
     \<lparr>productUrl = '' https://x/y.png '', budget = ''12.5'', material = ''  '', comments = [],
      name = ''Ann'', phone = ''555 0100''\<rparr>"

definition urlDraft :: component_state where
  "urlDraft =
     \<lparr>formData = sampleForm, selectedImage = None, uploadType = Url,
      isSubmitting = False, submitError = []\<rparr>"

definition fileDraft :: component_state where
  "fileDraft =
     \<lparr>formData = sampleForm, selectedImage = Some sampleImage, uploadType = File,
      isSubmitting = False, submitError = []\<rparr>"

definition sampleAddress :: "string \<Rightarrow> string" where
  "sampleAddress path = ''https://cdn.example/'' @ path"


definition wordBudgetDraft :: component_state where
  "wordBudgetDraft = urlDraft\<lparr>formData := sampleForm\<lparr>budget := ''abc''\<rparr>\<rparr>"

definition infiniteBudgetDraft :: component_state where
  "infiniteBudgetDraft = urlDraft\<lparr>formData := sampleForm\<lparr>budget := ''Infinity''\<rparr>\<rparr>"

subsection \<open>The validator as the specification words it\<close>




text \<open>The first five checks pass: the image source and the required texts are there.\<close>

definition requiredPresent :: "component_state \<Rightarrow> bool" where
  "requiredPresent c \<longleftrightarrow>
     (uploadType c = File \<and> selectedImage c \<noteq> None \<or>
      uploadType c = Url \<and> trim (productUrl (formData c)) \<noteq> []) \<and>
     trim (budget (formData c)) \<noteq> [] \<and>
     trim (name (formData c)) \<noteq> [] \<and>
     trim (phone (formData c)) \<noteq> []"

text \<open>
  The texts that \<open>parseFloat\<close> turns into a number: after leading white space and an
  optional sign they start with \<open>Infinity\<close>, with a digit, or with a point and a digit.
\<close>

definition numericPrefix :: "string \<Rightarrow> bool" where
  "numericPrefix s =
     (let (neg, r) = signOf (trimStart s)
      in take 8 r = ''Infinity'' \<or>
         (case r of
            [] \<Rightarrow> False
          | ch # cs \<Rightarrow>
              isDigit ch \<or>
              (ch = CHR ''.'' \<and> (case cs of [] \<Rightarrow> False | d # ds \<Rightarrow> isDigit d))))"

subsection \<open>The flag and the attempts in flight\<close>


section \<open>The paths through one attempt\<close>

lemmas setters = emit_def setIsSubmitting_def setSubmitError_def setFormData_def
  setSelectedImage_def setUploadType_def

lemma handleSubmit_invalid:
  "validation (st s) = Some m \<Longrightarrow>
   handleSubmit now s =
     s\<lparr>st := (st s)\<lparr>isSubmitting := False, submitError := m\<rparr>,
       trace := trace s @ [PreventDefault]\<rparr>"
  by (simp add: handleSubmit_def setters)

lemma validation_None_image:
  "validation c = None \<Longrightarrow> uploadType c = File \<Longrightarrow> \<exists>img. selectedImage c = Some img"
  by (auto simp: validation_def split: if_splits)

lemma handleSubmit_url:
  "validation (st s) = None \<Longrightarrow> uploadType (st s) = Url \<Longrightarrow>
   handleSubmit now s =
     s\<lparr>st := (st s)\<lparr>isSubmitting := True, submitError := []\<rparr>,
       trace := trace s @ [PreventDefault,
         Insert ''form_submissions''
           [buildRow (Some (trim (productUrl (formData (st s)))))
              (parseFloat (budget (formData (st s)))) (formData (st s))]],
       inflight := inflight s @ [AwaitInsert]\<rparr>"
  by (simp add: handleSubmit_def callInsert_def setters Let_def)

lemma handleSubmit_file:
  "validation (st s) = None \<Longrightarrow> uploadType (st s) = File \<Longrightarrow>
   selectedImage (st s) = Some img \<Longrightarrow>
   handleSubmit now s =
     s\<lparr>st := (st s)\<lparr>isSubmitting := True, submitError := []\<rparr>,
       trace := trace s @ [PreventDefault,
         StorageUpload ''mvp_bucket'' (digitsOf now @ ''-'' @ file_name img) img],
       inflight := inflight s @
         [AwaitUpload (formData (st s)) (parseFloat (budget (formData (st s))))]\<rparr>"
  by (simp add: handleSubmit_def setters Let_def)

lemma attempt_invalid:
  "validation c = Some m \<Longrightarrow>
   attempt gp now up ins c =
     \<lparr>st = c\<lparr>isSubmitting := False, submitError := m\<rparr>, inflight = [],
      trace = [PreventDefault]\<rparr>"
  by (simp add: attempt_def handleSubmit_invalid freshSession_def uploadSettled_def
      insertSettled_def)

lemma attempt_url:
  "validation c = None \<Longrightarrow> uploadType c = Url \<Longrightarrow>
   attempt gp now up ins c =
     insertSettled 0 ins
       \<lparr>st = c\<lparr>isSubmitting := True, submitError := []\<rparr>, inflight = [AwaitInsert],
        trace = [PreventDefault,
          Insert ''form_submissions''
            [buildRow (Some (trim (productUrl (formData c)))) (parseFloat (budget (formData c)))
               (formData c)]]\<rparr>"
  by (simp add: attempt_def handleSubmit_url freshSession_def uploadSettled_def)

lemma attempt_file_data:
  "validation c = None \<Longrightarrow> uploadType c = File \<Longrightarrow> selectedImage c = Some img \<Longrightarrow>
   attempt gp now (UploadData path) ins c =
     insertSettled 0 ins
       \<lparr>st = c\<lparr>isSubmitting := True, submitError := []\<rparr>, inflight = [AwaitInsert],
        trace = [PreventDefault,
          StorageUpload ''mvp_bucket'' (digitsOf now @ ''-'' @ file_name img) img,
          GetPublicUrl ''mvp_bucket'' path,
          Insert ''form_submissions''
            [buildRow (Some (gp path)) (parseFloat (budget (formData c))) (formData c)]]\<rparr>"
  by (simp add: attempt_def handleSubmit_file freshSession_def uploadSettled_def dropAt_def
      callInsert_def setters)

lemma attempt_file_error:
  "validation c = None \<Longrightarrow> uploadType c = File \<Longrightarrow> selectedImage c = Some img \<Longrightarrow>
   attempt gp now (UploadError e) ins c =
     \<lparr>st = c\<lparr>isSubmitting := False,
             submitError := ''There was an error submitting your request. Please try again.''\<rparr>,
      inflight = [],
      trace = [PreventDefault,
        StorageUpload ''mvp_bucket'' (digitsOf now @ ''-'' @ file_name img) img,
        ConsoleError ''Image upload error:'' (StorageError e),
        ConsoleError ''Error submitting form:'' (ErrorObj ''Failed to upload image'')]\<rparr>"
  by (simp add: attempt_def handleSubmit_file freshSession_def uploadSettled_def
      insertSettled_def dropAt_def catchFinally_def setters)

lemma attempt_file_rejected:
  "validation c = None \<Longrightarrow> uploadType c = File \<Longrightarrow> selectedImage c = Some img \<Longrightarrow>
   attempt gp now (UploadRejected e) ins c =
     \<lparr>st = c\<lparr>isSubmitting := False,
             submitError := ''There was an error submitting your request. Please try again.''\<rparr>,
      inflight = [],
      trace = [PreventDefault,
        StorageUpload ''mvp_bucket'' (digitsOf now @ ''-'' @ file_name img) img,
        ConsoleError ''Error submitting form:'' (Reason e)]\<rparr>"
  by (simp add: attempt_def handleSubmit_file freshSession_def uploadSettled_def
      insertSettled_def dropAt_def catchFinally_def setters)

lemma insertSettled_data:
  "insertSettled 0 (InsertData rows) \<lparr>st = c, inflight = [AwaitInsert], trace = tr\<rparr> =
     \<lparr>st = c\<lparr>formData := emptyForm, selectedImage := None, isSubmitting := False\<rparr>,
      inflight = [],
      trace = tr @ [ConsoleLog ''Successfully inserted data:'' (Rows rows),
                    Alert ''Thank you! We will text you with our hand-selected dupes soon!'']\<rparr>"
  by (simp add: insertSettled_def dropAt_def setters)

lemma insertSettled_error:
  "insertSettled 0 (InsertError code message) \<lparr>st = c, inflight = [AwaitInsert], trace = tr\<rparr> =
     \<lparr>st = c\<lparr>submitError := ''There was an error submitting your request. Please try again.'',
             isSubmitting := False\<rparr>,
      inflight = [],
      trace = tr @ [ConsoleError ''Supabase insertion error:'' (PostgrestError code message),
                    ConsoleError ''Error submitting form:''
                      (ErrorObj (insertErrorMessage code message))]\<rparr>"
  by (simp add: insertSettled_def dropAt_def catchFinally_def setters)

lemma insertSettled_rejected:
  "insertSettled 0 (InsertRejected reason) \<lparr>st = c, inflight = [AwaitInsert], trace = tr\<rparr> =
     \<lparr>st = c\<lparr>submitError := ''There was an error submitting your request. Please try again.'',
             isSubmitting := False\<rparr>,
      inflight = [],
      trace = tr @ [ConsoleError ''Error submitting form:'' (Reason reason)]\<rparr>"
  by (simp add: insertSettled_def dropAt_def catchFinally_def setters)

lemmas insertSettled_paths = insertSettled_data insertSettled_error insertSettled_rejected

lemma attempt_cases:
  obtains
    (invalid) m where "validation c = Some m"
      "attempt gp now up ins c =
         \<lparr>st = c\<lparr>isSubmitting := False, submitError := m\<rparr>, inflight = [],
          trace = [PreventDefault]\<rparr>"
  | (url) "validation c = None" "uploadType c = Url"
      "attempt gp now up ins c =
         insertSettled 0 ins
           \<lparr>st = c\<lparr>isSubmitting := True, submitError := []\<rparr>, inflight = [AwaitInsert],
            trace = [PreventDefault,
              Insert ''form_submissions''
                [buildRow (Some (trim (productUrl (formData c))))
                   (parseFloat (budget (formData c))) (formData c)]]\<rparr>"
  | (uploaded) img path where "validation c = None" "uploadType c = File"
      "selectedImage c = Some img" "up = UploadData path"
      "attempt gp now up ins c =
         insertSettled 0 ins
           \<lparr>st = c\<lparr>isSubmitting := True, submitError := []\<rparr>, inflight = [AwaitInsert],
            trace = [PreventDefault,
              StorageUpload ''mvp_bucket'' (digitsOf now @ ''-'' @ file_name img) img,
              GetPublicUrl ''mvp_bucket'' path,
              Insert ''form_submissions''
                [buildRow (Some (gp path)) (parseFloat (budget (formData c))) (formData c)]]\<rparr>"
  | (upload_error) img e where "validation c = None" "uploadType c = File"
      "selectedImage c = Some img" "up = UploadError e"
      "attempt gp now up ins c =
         \<lparr>st = c\<lparr>isSubmitting := False,
                 submitError := ''There was an error submitting your request. Please try again.''\<rparr>,
          inflight = [],
          trace = [PreventDefault,
            StorageUpload ''mvp_bucket'' (digitsOf now @ ''-'' @ file_name img) img,
            ConsoleError ''Image upload error:'' (StorageError e),
            ConsoleError ''Error submitting form:'' (ErrorObj ''Failed to upload image'')]\<rparr>"
  | (upload_rejected) img e where "validation c = None" "uploadType c = File"
      "selectedImage c = Some img" "up = UploadRejected e"
      "attempt gp now up ins c =
         \<lparr>st = c\<lparr>isSubmitting := False,
                 submitError := ''There was an error submitting your request. Please try again.''\<rparr>,
          inflight = [],
          trace = [PreventDefault,
            StorageUpload ''mvp_bucket'' (digitsOf now @ ''-'' @ file_name img) img,
            ConsoleError ''Error submitting form:'' (Reason e)]\<rparr>"
proof (cases "validation c")
  case (Some m)
  then show ?thesis using invalid attempt_invalid by blast
next
  case None
  show ?thesis
  proof (cases "uploadType c")
    case Url
    then show ?thesis using None url attempt_url by blast
  next
    case File
    then obtain img where img: "selectedImage c = Some img"
      using None validation_None_image by blast
    show ?thesis
    proof (cases up)
      case (UploadData path)
      then show ?thesis using None File img uploaded attempt_file_data by blast
    next
      case (UploadError e)
      then show ?thesis using None File img upload_error attempt_file_error by blast
    next
      case (UploadRejected e)
      then show ?thesis using None File img upload_rejected attempt_file_rejected by blast
    qed
  qed
qed

text \<open>Every row that an attempt inserts is the one built from the draft it started with.\<close>

lemma insertedRows_attempt:
  assumes "r \<in> set (insertedRows (trace (attempt gp now up ins c)))"
  shows "validation c = None \<and>
   (\<exists>u. r = buildRow (Some u) (parseFloat (budget (formData c))) (formData c) \<and>
        (uploadType c = Url \<longrightarrow> u = trim (productUrl (formData c))) \<and>
        (uploadType c = File \<longrightarrow> (\<exists>path. up = UploadData path \<and> u = gp path)))"
proof (cases rule: attempt_cases [of c gp now up ins])
  case (invalid m)
  then show ?thesis using assms by simp
next
  case url
  then show ?thesis using assms by (cases ins) (simp_all add: insertSettled_paths)
next
  case (uploaded img path)
  then show ?thesis using assms by (cases ins) (simp_all add: insertSettled_paths)
next
  case (upload_error img e)
  then show ?thesis using assms by simp
next
  case (upload_rejected img e)
  then show ?thesis using assms by simp
qed

lemma insertedRows_url:
  "validation c = None \<Longrightarrow> uploadType c = Url \<Longrightarrow>
   insertedRows (trace (attempt gp now up ins c)) =
     [buildRow (Some (trim (productUrl (formData c)))) (parseFloat (budget (formData c)))
        (formData c)]"
  by (cases ins) (simp_all add: attempt_url insertSettled_paths)

lemma insertedRows_file:
  assumes "validation c = None" and "uploadType c = File"
  shows "insertedRows (trace (attempt gp now (UploadData path) ins c)) =
     [buildRow (Some (gp path)) (parseFloat (budget (formData c))) (formData c)]"
proof -
  obtain img where "selectedImage c = Some img"
    using validation_None_image [OF assms] by blast
  with assms show ?thesis
    by (cases ins) (simp_all add: attempt_file_data insertSettled_paths)
qed

lemma buildRow_fields:
  "row_material (buildRow u b fd) = orNull (trim (material fd))"
  "extra_comments (buildRow u b fd) = orNull (trim (comments fd))"
  "product_url (buildRow u b fd) = u"
  "row_budget (buildRow u b fd) = b"
  by (simp_all add: buildRow_def)

lemma orNull_simps: "orNull [] = None" "orNull s \<noteq> Some []"
  by (simp_all add: orNull_def)

section \<open>The sample drafts\<close>

lemma parseFloat_sample: "parseFloat ''12.5'' = Finite (25 / 2)"
  by (simp add: parseFloat_def trimStart_def isWhiteSpace_def isDigit_def digitsVal_def
      digitVal_def exponentPart_def scale10_def overflowBound_def)

lemma trim_samples:
  "trim '' https://x/y.png '' = ''https://x/y.png''"
  "trim ''12.5'' = ''12.5''"
  "trim ''  '' = []"
  "trim [] = []"
  "trim ''Ann'' = ''Ann''"
  "trim ''555 0100'' = ''555 0100''"
  by (simp_all add: trim_def isWhiteSpace_def)

lemma urlDraft_fields:
  "uploadType urlDraft = Url" "formData urlDraft = sampleForm" "selectedImage urlDraft = None"
  by (simp_all add: urlDraft_def)

lemma fileDraft_fields:
  "uploadType fileDraft = File" "formData fileDraft = sampleForm"
  "selectedImage fileDraft = Some sampleImage"
  by (simp_all add: fileDraft_def)

lemma validation_urlDraft: "validation urlDraft = None"
  by (simp add: validation_def urlDraft_def sampleForm_def trim_samples parseFloat_sample
      isNaN_def)

lemma validation_fileDraft: "validation fileDraft = None"
  by (simp add: validation_def fileDraft_def sampleForm_def trim_samples parseFloat_sample
      isNaN_def)

lemma validation_initialState: "validation initialState = Some ''Please upload a product image''"
  by (simp add: validation_def initialState_def)

lemma validation_message_nonempty: "validation c = Some m \<Longrightarrow> m \<noteq> []"
  by (auto simp: validation_def split: if_splits)

section \<open>Validation failures stay local\<close>

text \<open>
  C6. When a draft fails validation, the attempt ends with the flag cleared and the
  error text set to the message of the first failing check, which is not empty; no
  upload, no address resolution and no insert is issued, nothing is left in flight, and
  the form fields, the selected image and the chosen image source are as they were.
\<close>

theorem validation_failure_is_local:
  assumes "validation c = Some m"
  shows "submitError (st (attempt gp now up ins c)) = m \<and> m \<noteq> [] \<and>
         \<not> isSubmitting (st (attempt gp now up ins c)) \<and>
         inflight (attempt gp now up ins c) = [] \<and>
         networkCalls (trace (attempt gp now up ins c)) = [] \<and>
         formData (st (attempt gp now up ins c)) = formData c \<and>
         selectedImage (st (attempt gp now up ins c)) = selectedImage c \<and>
         uploadType (st (attempt gp now up ins c)) = uploadType c"
  using assms validation_message_nonempty [OF assms]
  by (simp add: attempt_invalid networkCalls_def)

theorem validation_failure_is_local_witness:
  "validation initialState = Some ''Please upload a product image'' \<and>
   submitError (st (attempt sampleAddress 0 (UploadData ''p'') (InsertData []) initialState)) =
     ''Please upload a product image'' \<and>
   networkCalls (trace (attempt sampleAddress 0 (UploadData ''p'') (InsertData []) initialState)) = [] \<and>
   formData (st (attempt sampleAddress 0 (UploadData ''p'') (InsertData []) initialState)) = emptyForm"
proof -
  have "formData initialState = emptyForm"
    by (simp add: initialState_def)
  with validation_failure_is_local
         [OF validation_initialState, of sampleAddress 0 "UploadData ''p''" "InsertData []"]
    validation_initialState
  show ?thesis by simp
qed

section \<open>Success resets the draft\<close>

text \<open>
  C8. An attempt that reaches success (it shows the acknowledgment) leaves the form data
  at its empty default, all six text fields empty, and no image selected.
\<close>

theorem success_resets_draft:
  assumes "Alert a \<in> set (trace (attempt gp now up ins c))"
  shows "formData (st (attempt gp now up ins c)) = emptyForm \<and>
         selectedImage (st (attempt gp now up ins c)) = None \<and>
         productUrl emptyForm = [] \<and> budget emptyForm = [] \<and> material emptyForm = [] \<and>
         comments emptyForm = [] \<and> name emptyForm = [] \<and> phone emptyForm = []"
proof (cases rule: attempt_cases [of c gp now up ins])
  case (invalid m)
  then show ?thesis using assms by simp
next
  case url
  then show ?thesis using assms by (cases ins) (simp_all add: insertSettled_paths emptyForm_def)
next
  case (uploaded img path)
  then show ?thesis using assms by (cases ins) (simp_all add: insertSettled_paths emptyForm_def)
next
  case (upload_error img e)
  then show ?thesis using assms by simp
next
  case (upload_rejected img e)
  then show ?thesis using assms by simp
qed

theorem success_resets_draft_witness:
  "Alert ''Thank you! We will text you with our hand-selected dupes soon!''
     \<in> set (trace (attempt sampleAddress 0 (UploadData ''p'') (InsertData []) fileDraft)) \<and>
   formData fileDraft \<noteq> emptyForm \<and> selectedImage fileDraft \<noteq> None \<and>
   formData (st (attempt sampleAddress 0 (UploadData ''p'') (InsertData []) fileDraft)) = emptyForm \<and>
   selectedImage (st (attempt sampleAddress 0 (UploadData ''p'') (InsertData []) fileDraft)) = None"
proof -
  have a: "Alert ''Thank you! We will text you with our hand-selected dupes soon!''
     \<in> set (trace (attempt sampleAddress 0 (UploadData ''p'') (InsertData []) fileDraft))"
    by (simp add: attempt_file_data [OF validation_fileDraft fileDraft_fields(1,3)]
        insertSettled_data)
  have b: "formData fileDraft \<noteq> emptyForm" "selectedImage fileDraft \<noteq> None"
    by (simp_all add: fileDraft_fields sampleForm_def emptyForm_def)
  from success_resets_draft [OF a] a b show ?thesis by simp
qed

section \<open>Empty optional fields become null\<close>

text \<open>
  C7. In every row that an attempt hands to the insert call, the material and
  extra_comments columns are null whenever the corresponding field of the draft is
  empty or only white space after trimming, and they are never the empty string.
\<close>

theorem empty_optionals_are_null:
  "\<forall>r \<in> set (insertedRows (trace (attempt gp now up ins c))).
     (trim (material (formData c)) = [] \<longrightarrow> row_material r = None) \<and>
     (trim (comments (formData c)) = [] \<longrightarrow> extra_comments r = None) \<and>
     row_material r \<noteq> Some [] \<and> extra_comments r \<noteq> Some []"
proof
  fix r assume "r \<in> set (insertedRows (trace (attempt gp now up ins c)))"
  from insertedRows_attempt [OF this]
  obtain u where "r = buildRow (Some u) (parseFloat (budget (formData c))) (formData c)"
    by blast
  then show "(trim (material (formData c)) = [] \<longrightarrow> row_material r = None) \<and>
     (trim (comments (formData c)) = [] \<longrightarrow> extra_comments r = None) \<and>
     row_material r \<noteq> Some [] \<and> extra_comments r \<noteq> Some []"
    by (simp add: buildRow_fields orNull_simps)
qed

theorem empty_optionals_are_null_witness:
  "trim (material (formData urlDraft)) = [] \<and> trim (comments (formData urlDraft)) = [] \<and>
   length (insertedRows
     (trace (attempt sampleAddress 0 (UploadData ''p'') (InsertData []) urlDraft))) = 1 \<and>
   map row_material (insertedRows
     (trace (attempt sampleAddress 0 (UploadData ''p'') (InsertData []) urlDraft))) = [None] \<and>
   map extra_comments (insertedRows
     (trace (attempt sampleAddress 0 (UploadData ''p'') (InsertData []) urlDraft))) = [None]"
proof -
  have m: "trim (material (formData urlDraft)) = []" "trim (comments (formData urlDraft)) = []"
    by (simp_all add: urlDraft_fields sampleForm_def trim_samples)
  obtain r where
    n: "insertedRows (trace (attempt sampleAddress 0 (UploadData ''p'') (InsertData []) urlDraft)) = [r]"
    by (simp add: insertedRows_url [OF validation_urlDraft urlDraft_fields(1)])
  from empty_optionals_are_null [of sampleAddress 0 "UploadData ''p''" "InsertData []" urlDraft] m n
  show ?thesis by simp
qed

section \<open>The inserted address is never null\<close>

text \<open>
  C10. For a draft that passes validation, every row handed to the insert call has a
  product_url that is not null: with the URL source it is the trimmed productUrl, which
  validation made non-empty; with the file source a file is selected, the upload
  answered with a path, and it is the public address of that path.
\<close>

theorem inserted_address_not_null:
  assumes "validation c = None"
  shows "\<forall>r \<in> set (insertedRows (trace (attempt gp now up ins c))).
           product_url r \<noteq> None \<and>
           (uploadType c = Url \<longrightarrow>
              product_url r = Some (trim (productUrl (formData c))) \<and>
              trim (productUrl (formData c)) \<noteq> []) \<and>
           (uploadType c = File \<longrightarrow>
              selectedImage c \<noteq> None \<and>
              (\<exists>path. up = UploadData path \<and> product_url r = Some (gp path)))"
proof
  fix r assume "r \<in> set (insertedRows (trace (attempt gp now up ins c)))"
  from insertedRows_attempt [OF this]
  obtain u where r: "r = buildRow (Some u) (parseFloat (budget (formData c))) (formData c)"
    and u: "uploadType c = Url \<longrightarrow> u = trim (productUrl (formData c))"
    and f: "uploadType c = File \<longrightarrow> (\<exists>path. up = UploadData path \<and> u = gp path)"
    by blast
  have nonempty: "uploadType c = Url \<longrightarrow> trim (productUrl (formData c)) \<noteq> []"
    using assms by (auto simp: validation_def split: if_splits)
  have img: "uploadType c = File \<longrightarrow> selectedImage c \<noteq> None"
    using assms validation_None_image [of c] by auto
  from r u f nonempty img
  show "product_url r \<noteq> None \<and>
           (uploadType c = Url \<longrightarrow>
              product_url r = Some (trim (productUrl (formData c))) \<and>
              trim (productUrl (formData c)) \<noteq> []) \<and>
           (uploadType c = File \<longrightarrow>
              selectedImage c \<noteq> None \<and>
              (\<exists>path. up = UploadData path \<and> product_url r = Some (gp path)))"
    by (simp add: buildRow_fields)
qed

theorem inserted_address_not_null_witness:
  "validation fileDraft = None \<and>
   map product_url (insertedRows
     (trace (attempt sampleAddress 0 (UploadData ''p'') (InsertData []) fileDraft))) =
     [Some ''https://cdn.example/p'']"
proof -
  obtain r where
    n: "insertedRows (trace (attempt sampleAddress 0 (UploadData ''p'') (InsertData []) fileDraft)) = [r]"
    by (simp add: insertedRows_file [OF validation_fileDraft fileDraft_fields(1)])
  from inserted_address_not_null
         [OF validation_fileDraft, of sampleAddress 0 "UploadData ''p''" "InsertData []"]
    n validation_fileDraft
  show ?thesis by (simp add: fileDraft_fields sampleAddress_def)
qed

section \<open>The URL source never touches the object store\<close>

text \<open>
  C5. With the URL source and a productUrl that is not empty after trimming, an attempt
  makes no object store call (no upload, no address resolution), every row it inserts
  has the trimmed productUrl as its product_url, and when the draft passes validation
  it inserts exactly one row.
\<close>

theorem url_mode_skips_object_store:
  assumes "uploadType c = Url" and "trim (productUrl (formData c)) \<noteq> []"
  shows "filter isObjectStoreCall (trace (attempt gp now up ins c)) = [] \<and>
         (\<forall>r \<in> set (insertedRows (trace (attempt gp now up ins c))).
            product_url r = Some (trim (productUrl (formData c)))) \<and>
         (validation c = None \<longrightarrow> length (insertedRows (trace (attempt gp now up ins c))) = 1)"
proof (cases rule: attempt_cases [of c gp now up ins])
  case (invalid m)
  then show ?thesis by simp
next
  case url
  then show ?thesis by (cases ins) (simp_all add: insertSettled_paths buildRow_fields)
next
  case (uploaded img path)
  then show ?thesis using assms by simp
next
  case (upload_error img e)
  then show ?thesis using assms by simp
next
  case (upload_rejected img e)
  then show ?thesis using assms by simp
qed

theorem url_mode_skips_object_store_witness:
  "uploadType urlDraft = Url \<and> trim (productUrl (formData urlDraft)) = ''https://x/y.png'' \<and>
   filter isObjectStoreCall
     (trace (attempt sampleAddress 0 (UploadData ''p'') (InsertData []) urlDraft)) = [] \<and>
   map product_url
     (insertedRows (trace (attempt sampleAddress 0 (UploadData ''p'') (InsertData []) urlDraft))) =
     [Some ''https://x/y.png'']"
proof -
  have t: "trim (productUrl (formData urlDraft)) = ''https://x/y.png''"
    by (simp add: urlDraft_fields sampleForm_def trim_samples)
  have ne: "trim (productUrl (formData urlDraft)) \<noteq> []"
    by (simp add: t)
  have rows: "map product_url
     (insertedRows (trace (attempt sampleAddress 0 (UploadData ''p'') (InsertData []) urlDraft))) =
     [Some ''https://x/y.png'']"
    by (simp add: insertedRows_url [OF validation_urlDraft urlDraft_fields(1)] buildRow_fields t)
  from url_mode_skips_object_store
         [OF urlDraft_fields(1) ne, of sampleAddress 0 "UploadData ''p''" "InsertData []"]
    t rows urlDraft_fields(1)
  show ?thesis by simp
qed

section \<open>Facts about the validator and the number parser\<close>



lemma parseFloat_NaN_iff: "isNaN (parseFloat s) \<longleftrightarrow> \<not> numericPrefix s"
proof -
  obtain neg r where sr: "signOf (trimStart s) = (neg, r)"
    by (cases "signOf (trimStart s)")
  show ?thesis
  proof (cases "take 8 r = ''Infinity''")
    case True
    then show ?thesis by (simp add: parseFloat_def numericPrefix_def sr isNaN_def)
  next
    case inf: False
    show ?thesis
    proof (cases r)
      case Nil
      then show ?thesis by (simp add: parseFloat_def numericPrefix_def sr isNaN_def)
    next
      case (Cons ch cs)
      show ?thesis
      proof (cases "isDigit ch")
        case True
        then show ?thesis
          using inf Cons by (simp add: parseFloat_def numericPrefix_def sr isNaN_def Let_def)
      next
        case nd: False
        show ?thesis
        proof (cases "ch = CHR ''.''")
          case True
          then show ?thesis
            using inf Cons nd
            by (cases cs) (simp_all add: parseFloat_def numericPrefix_def sr isNaN_def Let_def)
        next
          case False
          then show ?thesis
            using inf Cons nd
            by (simp add: parseFloat_def numericPrefix_def sr isNaN_def Let_def)
        qed
      qed
    qed
  qed
qed

lemma requiredPresent_validation:
  "requiredPresent c \<Longrightarrow>
   validation c = (if isNaN (parseFloat (budget (formData c)))
                   then Some ''Please enter a valid budget amount'' else None)"
  by (auto simp: requiredPresent_def validation_def)

lemma validation_invalid_budget:
  "validation c = Some ''Please enter a valid budget amount'' \<Longrightarrow>
   requiredPresent c \<and> isNaN (parseFloat (budget (formData c)))"
  by (cases "uploadType c") (auto simp: requiredPresent_def validation_def split: if_splits)

lemma requiredPresent_wordBudgetDraft: "requiredPresent wordBudgetDraft"
  by (simp add: requiredPresent_def wordBudgetDraft_def urlDraft_def sampleForm_def trim_samples
      trim_def isWhiteSpace_def)

lemma numericPrefix_samples:
  "\<not> numericPrefix ''abc''" "numericPrefix ''12.5''" "numericPrefix ''Infinity''"
  "numericPrefix ''12abc''"
  by (simp_all add: numericPrefix_def trimStart_def isWhiteSpace_def isDigit_def)

lemma parseFloat_Infinity: "parseFloat ''Infinity'' = Infinity False"
  by (simp add: parseFloat_def trimStart_def isWhiteSpace_def)

lemma validation_infiniteBudgetDraft: "validation infiniteBudgetDraft = None"
  by (simp add: validation_def infiniteBudgetDraft_def urlDraft_def sampleForm_def trim_samples
      parseFloat_Infinity isNaN_def trim_def isWhiteSpace_def)

lemma insertErrorMessage_table:
  "insertErrorMessage ''23505'' m = ''This submission already exists''"
  "insertErrorMessage ''42P01'' m = ''Table not found. Please check your database setup''"
  "insertErrorMessage ''42703'' m = ''Invalid column name. Please check the form fields''"
  "insertErrorMessage ''23502'' m = ''Required field missing''"
  "insertErrorMessage ''99999'' ''timeout'' = ''Database error: timeout''"
  by (simp_all add: insertErrorMessage_def)

section \<open>The flag follows the attempt in flight\<close>

lemma handleSubmit_fresh:
  "handleSubmit now (freshSession c) =
     (case validation c of
        Some m \<Rightarrow> \<lparr>st = c\<lparr>isSubmitting := False, submitError := m\<rparr>, inflight = [],
                    trace = [PreventDefault]\<rparr>
      | None \<Rightarrow>
          (case (uploadType c, selectedImage c) of
             (File, Some img) \<Rightarrow>
               \<lparr>st = c\<lparr>isSubmitting := True, submitError := []\<rparr>,
                inflight = [AwaitUpload (formData c) (parseFloat (budget (formData c)))],
                trace = [PreventDefault,
                  StorageUpload ''mvp_bucket'' (digitsOf now @ ''-'' @ file_name img) img]\<rparr>
           | (File, None) \<Rightarrow> handleSubmit now (freshSession c)
           | (Url, _) \<Rightarrow>
               \<lparr>st = c\<lparr>isSubmitting := True, submitError := []\<rparr>, inflight = [AwaitInsert],
                trace = [PreventDefault,
                  Insert ''form_submissions''
                    [buildRow (Some (trim (productUrl (formData c))))
                       (parseFloat (budget (formData c))) (formData c)]]\<rparr>))"
  by (simp add: handleSubmit_invalid handleSubmit_url handleSubmit_file freshSession_def
      split: option.split upload_type.split)
















text \<open>
  The handler itself does not look at the flag: called twice in a row it issues two
  inserts. What keeps a second trigger out is the disabled submit button.
\<close>

lemma validation_flags:
  "validation (c\<lparr>isSubmitting := b, submitError := e\<rparr>) = validation c"
  by (simp add: validation_def)

lemma handleSubmit_unguarded:
  "length (filter isInsertCall
     (trace (handleSubmit 1 (handleSubmit 0 (freshSession urlDraft))))) = 2"
proof -
  have 1: "handleSubmit 0 (freshSession urlDraft) =
     \<lparr>st = urlDraft\<lparr>isSubmitting := True, submitError := []\<rparr>, inflight = [AwaitInsert],
      trace = [PreventDefault,
        Insert ''form_submissions''
          [buildRow (Some (trim (productUrl (formData urlDraft))))
             (parseFloat (budget (formData urlDraft))) (formData urlDraft)]]\<rparr>"
    by (simp add: handleSubmit_fresh validation_urlDraft urlDraft_fields)
  show ?thesis
    by (simp add: 1 handleSubmit_url validation_flags validation_urlDraft urlDraft_fields)
qed

section \<open>The order of the checks\<close>



section \<open>The budget check\<close>

text \<open>
  C4, as amended. When the first five checks pass and the budget text has no numeric
  prefix (after leading white space and an optional sign it starts neither with a
  digit, nor with a point and a digit, nor with \<open>Infinity\<close>), \<open>parseFloat\<close> gives NaN,
  the attempt ends with the invalid-budget message and no network call is made; the
  invalid-budget message appears in no other case, and the texts without a numeric prefix
  are exactly those that \<open>parseFloat\<close> turns into NaN. The budget text \<open>12.5\<close> never
  gets that message, and every row inserted for it carries the number 12.5.
\<close>

theorem budget_rejected_when_not_numeric:
  "(requiredPresent c \<and> \<not> numericPrefix (budget (formData c)) \<longrightarrow>
      isNaN (parseFloat (budget (formData c))) \<and>
      submitError (st (attempt gp now up ins c)) = ''Please enter a valid budget amount'' \<and>
      networkCalls (trace (attempt gp now up ins c)) = []) \<and>
   (validation c = Some ''Please enter a valid budget amount'' \<longrightarrow>
      requiredPresent c \<and> \<not> numericPrefix (budget (formData c))) \<and>
   (isNaN (parseFloat b) \<longleftrightarrow> \<not> numericPrefix b) \<and>
   (budget (formData c) = ''12.5'' \<longrightarrow>
      validation c \<noteq> Some ''Please enter a valid budget amount'' \<and>
      (\<forall>r \<in> set (insertedRows (trace (attempt gp now up ins c))). row_budget r = Finite (25 / 2)))"
proof -
  have a: "isNaN (parseFloat (budget (formData c))) \<and>
      submitError (st (attempt gp now up ins c)) = ''Please enter a valid budget amount'' \<and>
      networkCalls (trace (attempt gp now up ins c)) = []"
    if "requiredPresent c \<and> \<not> numericPrefix (budget (formData c))"
  proof -
    from that have n: "isNaN (parseFloat (budget (formData c)))"
      by (simp add: parseFloat_NaN_iff)
    with that have "validation c = Some ''Please enter a valid budget amount''"
      by (simp add: requiredPresent_validation)
    with n show ?thesis
      by (simp add: attempt_invalid networkCalls_def)
  qed
  have b: "requiredPresent c \<and> \<not> numericPrefix (budget (formData c))"
    if "validation c = Some ''Please enter a valid budget amount''"
    using validation_invalid_budget [OF that] by (simp add: parseFloat_NaN_iff)
  have c1: "validation c \<noteq> Some ''Please enter a valid budget amount''"
    if "budget (formData c) = ''12.5''"
    using that validation_invalid_budget [of c] by (auto simp: parseFloat_sample isNaN_def)
  have c2: "\<forall>r \<in> set (insertedRows (trace (attempt gp now up ins c))). row_budget r = Finite (25 / 2)"
    if "budget (formData c) = ''12.5''"
  proof
    fix r assume "r \<in> set (insertedRows (trace (attempt gp now up ins c)))"
    from insertedRows_attempt [OF this] that show "row_budget r = Finite (25 / 2)"
      by (auto simp: buildRow_fields parseFloat_sample)
  qed
  from a b c1 c2 parseFloat_NaN_iff [of b] show ?thesis by blast
qed

theorem budget_rejected_when_not_numeric_witness:
  "requiredPresent wordBudgetDraft \<and> budget (formData wordBudgetDraft) = ''abc'' \<and>
   submitError (st (attempt sampleAddress 0 (UploadData ''p'') (InsertData []) wordBudgetDraft)) =
     ''Please enter a valid budget amount'' \<and>
   networkCalls (trace (attempt sampleAddress 0 (UploadData ''p'') (InsertData []) wordBudgetDraft)) = [] \<and>
   budget (formData urlDraft) = ''12.5'' \<and>
   map row_budget (insertedRows
     (trace (attempt sampleAddress 0 (UploadData ''p'') (InsertData []) urlDraft))) = [Finite (25 / 2)]"
proof -
  have w: "budget (formData wordBudgetDraft) = ''abc''"
    by (simp add: wordBudgetDraft_def)
  have u: "budget (formData urlDraft) = ''12.5''"
    by (simp add: urlDraft_fields sampleForm_def)
  obtain r where
    n: "insertedRows (trace (attempt sampleAddress 0 (UploadData ''p'') (InsertData []) urlDraft)) = [r]"
    by (simp add: insertedRows_url [OF validation_urlDraft urlDraft_fields(1)])
  from budget_rejected_when_not_numeric [of wordBudgetDraft sampleAddress 0 "UploadData ''p''" "InsertData []"]
    requiredPresent_wordBudgetDraft w numericPrefix_samples(1)
  have 1: "submitError (st (attempt sampleAddress 0 (UploadData ''p'') (InsertData []) wordBudgetDraft)) =
     ''Please enter a valid budget amount'' \<and>
   networkCalls (trace (attempt sampleAddress 0 (UploadData ''p'') (InsertData []) wordBudgetDraft)) = []"
    by simp
  from budget_rejected_when_not_numeric [of urlDraft sampleAddress 0 "UploadData ''p''" "InsertData []"] u n
  have 2: "map row_budget (insertedRows
     (trace (attempt sampleAddress 0 (UploadData ''p'') (InsertData []) urlDraft))) = [Finite (25 / 2)]"
    by simp
  from 1 2 w u requiredPresent_wordBudgetDraft show ?thesis by simp
qed

text \<open>
  C4 as stated fails: the budget text \<open>Infinity\<close> does not parse as a finite number,
  yet the draft passes validation and the row is inserted with an infinite budget.
\<close>

theorem infinite_budget_accepted_counterexample:
  "budget (formData infiniteBudgetDraft) = ''Infinity'' \<and>
   parseFloat ''Infinity'' = Infinity False \<and>
   validation infiniteBudgetDraft = None \<and>
   submitError (st (attempt sampleAddress 0 (UploadData ''p'') (InsertData []) infiniteBudgetDraft)) = [] \<and>
   map row_budget (insertedRows
     (trace (attempt sampleAddress 0 (UploadData ''p'') (InsertData []) infiniteBudgetDraft))) =
     [Infinity False]"
proof -
  have u: "uploadType infiniteBudgetDraft = Url"
    "budget (formData infiniteBudgetDraft) = ''Infinity''"
    by (simp_all add: infiniteBudgetDraft_def urlDraft_def)
  show ?thesis
    by (simp add: u parseFloat_Infinity validation_infiniteBudgetDraft
        insertedRows_url [OF validation_infiniteBudgetDraft u(1)] buildRow_fields
        attempt_url [OF validation_infiniteBudgetDraft u(1)] insertSettled_data)
qed

section \<open>What the form shows when the insert fails\<close>

text \<open>
  C1, as amended. When the insert answers with an error value, the code table (23505,
  42P01, 42703, 23502, and \<open>Database error: \<close> followed by the store's detail for
  any other code) gives the message of the Error that is thrown and logged last to
  the console; the text the form shows is always the one fixed text of the catch
  block, and the flag is cleared.
\<close>

theorem insert_failure_shows_fixed_text:
  assumes "validation c = None" and "uploadType c = Url \<or> up = UploadData path"
  shows "submitError (st (attempt gp now up (InsertError code message) c)) =
           ''There was an error submitting your request. Please try again.'' \<and>
         \<not> isSubmitting (st (attempt gp now up (InsertError code message) c)) \<and>
         last (trace (attempt gp now up (InsertError code message) c)) =
           ConsoleError ''Error submitting form:'' (ErrorObj (insertErrorMessage code message)) \<and>
         insertErrorMessage ''23505'' message = ''This submission already exists'' \<and>
         insertErrorMessage ''99999'' ''timeout'' = ''Database error: timeout'' \<and>
         (code \<notin> {''23505'', ''42P01'', ''42703'', ''23502''} \<longrightarrow>
            insertErrorMessage code message = ''Database error: '' @ message)"
proof (cases rule: attempt_cases [of c gp now up "InsertError code message"])
  case (invalid m)
  then show ?thesis using assms by simp
next
  case url
  then show ?thesis by (simp add: insertSettled_error insertErrorMessage_def)
next
  case (uploaded img path)
  then show ?thesis by (simp add: insertSettled_error insertErrorMessage_def)
next
  case (upload_error img e)
  then show ?thesis using assms by simp
next
  case (upload_rejected img e)
  then show ?thesis using assms by simp
qed

theorem insert_failure_shows_fixed_text_witness:
  "validation fileDraft = None \<and>
   submitError (st (attempt sampleAddress 0 (UploadData ''p'') (InsertError ''99999'' ''timeout'') fileDraft)) =
           ''There was an error submitting your request. Please try again.'' \<and>
   last (trace (attempt sampleAddress 0 (UploadData ''p'') (InsertError ''99999'' ''timeout'') fileDraft)) =
           ConsoleError ''Error submitting form:'' (ErrorObj ''Database error: timeout'')"
proof -
  have "uploadType fileDraft = Url \<or> UploadData ''p'' = UploadData ''p''"
    by simp
  from insert_failure_shows_fixed_text [OF validation_fileDraft this, of sampleAddress 0 "''99999''" "''timeout''"]
    validation_fileDraft
  show ?thesis by simp
qed

text \<open>
  C1 as stated fails: for the store code 23505 the form does not show
  \<open>This submission already exists\<close>, and for an unmapped code with detail
  \<open>timeout\<close> it does not show \<open>Database error: timeout\<close>.
\<close>

theorem store_message_not_shown_counterexample:
  "validation urlDraft = None \<and>
   submitError (st (attempt sampleAddress 0 (UploadData ''p'')
      (InsertError ''23505'' ''duplicate key value'') urlDraft)) =
     ''There was an error submitting your request. Please try again.'' \<and>
   submitError (st (attempt sampleAddress 0 (UploadData ''p'')
      (InsertError ''23505'' ''duplicate key value'') urlDraft)) \<noteq>
     ''This submission already exists'' \<and>
   submitError (st (attempt sampleAddress 0 (UploadData ''p'')
      (InsertError ''99999'' ''timeout'') urlDraft)) \<noteq> ''Database error: timeout''"
  by (simp add: validation_urlDraft attempt_url [OF validation_urlDraft urlDraft_fields(1)]
      insertSettled_error)

section \<open>A second trigger while submitting\<close>



section \<open>The flag on every path\<close>



end
